theory Spec2Isabelle
  imports Main
begin

section \<open>The ORCID provider of Auth.js (\<^verbatim>\<open>packages/core/src/providers/orcid.ts\<close>)\<close>

text \<open>
  The source file exports one function, \<^verbatim>\<open>ORCID(options)\<close>, which returns an object
  literal: fixed metadata, the endpoint of the user-info request with its \<^verbatim>\<open>request\<close>
  function, the \<^verbatim>\<open>profile\<close> mapping, and the caller's \<^verbatim>\<open>options\<close> stored under the key
  \<^verbatim>\<open>options\<close>. This theory embeds these three functions.

  Strings are \<^typ>\<open>string\<close>; a \<^typ>\<open>char\<close> stands for a UTF-16 code unit below 256.
  An optional property (\<^verbatim>\<open>name?: string\<close>) is an \<^typ>\<open>string option\<close>, \<^term>\<open>None\<close>
  being \<^verbatim>\<open>undefined\<close>.
\<close>

subsection \<open>JavaScript operators on strings\<close>

text \<open>
  \<^verbatim>\<open>a || b\<close> on an optional string \<^verbatim>\<open>a\<close>: the value of \<^verbatim>\<open>a\<close> when it is truthy,
  otherwise \<^verbatim>\<open>b\<close>. The falsy values of type \<^verbatim>\<open>string | undefined\<close> are \<^verbatim>\<open>undefined\<close>
  and the empty string.
\<close>

definition or_else :: "string option \<Rightarrow> string \<Rightarrow> string" where
  "or_else a b = (case a of None \<Rightarrow> b | Some s \<Rightarrow> if s = [] then b else s)"

text \<open>
  The white space of \<^verbatim>\<open>String.prototype.trim\<close> among the code units below 256:
  TAB, LF, VT, FF, CR, SP and NBSP.
\<close>

definition is_white_space :: "char \<Rightarrow> bool" where
  "is_white_space c =
     (c = CHR 0x09 \<or> c = CHR 0x0A \<or> c = CHR 0x0B \<or> c = CHR 0x0C \<or> c = CHR 0x0D
      \<or> c = CHR 0x20 \<or> c = CHR 0xA0)"

text \<open>\<^verbatim>\<open>s.trim()\<close>: the white space at both ends of \<^verbatim>\<open>s\<close> is removed.\<close>

definition trim :: "string \<Rightarrow> string" where
  "trim s = rev (dropWhile is_white_space (rev (dropWhile is_white_space s)))"

subsection \<open>The remote profile and the user returned to the engine\<close>

text \<open>
  \<^verbatim>\<open>interface ORCIDProfile\<close>. The source function is generic in
  \<^verbatim>\<open>P extends ORCIDProfile\<close>, which is the record scheme here.
\<close>

record ORCIDProfile =
  sub :: string
  name :: "string option"
  email :: "string option"
  given_name :: "string option"
  family_name :: "string option"
  picture :: "string option"
  url :: "string option"

text \<open>The object that \<^verbatim>\<open>profile\<close> returns: \<^verbatim>\<open>{ id, name, email, image, url }\<close>.\<close>

record User =
  user_id :: string
  user_name :: string
  user_email :: "string option"
  user_image :: "string option"
  user_url :: string

text \<open>
  \<^verbatim>\<open>profile(profile: P)\<close>, lines 91 to 99. In the \<^verbatim>\<open>name\<close> property \<^verbatim>\<open>.trim()\<close> binds
  tighter than \<^verbatim>\<open>||\<close>: it applies to the template literal only, not to
  \<^verbatim>\<open>profile.name\<close>.
\<close>

definition profile :: "'a ORCIDProfile_scheme \<Rightarrow> User" where
  "profile p =
     \<lparr> user_id = sub p,
       user_name =
         or_else (name p)
           (trim (or_else (given_name p) ''Unknown'' @ '' '' @ or_else (family_name p) '''')),
       user_email = email p,
       user_image = picture p,
       user_url = or_else (url p) (''https://orcid.org/'' @ sub p) \<rparr>"

subsection \<open>The platform: \<^verbatim>\<open>fetch\<close> and \<^verbatim>\<open>Response.json\<close>\<close>

text \<open>
  \<^verbatim>\<open>request\<close> calls two functions that are not code of this repository: \<^verbatim>\<open>fetch\<close>
  and the method \<^verbatim>\<open>json\<close> of the response. Nothing is assumed about them. They are
  parameters of the model, a record of two functions over a state of the world outside
  the program (the network, the server, the body stream of a response): what \<^verbatim>\<open>fetch\<close>
  does with its arguments (parsing the URL, checking the headers, following redirects,
  how many HTTP requests it puts on the wire) and when it rejects is the platform's.
  The response \<open>'res\<close>, the reason of a rejection \<open>'err\<close>, the parsed body \<open>'j\<close> and the
  world \<open>'w\<close> are type parameters: the program cannot look into any of them.

  A rejected promise is \<^term>\<open>Inl\<close> of the reason, a fulfilled one \<^term>\<open>Inr\<close> of
  the value.
\<close>

text \<open>
  A response with its status and its body, for the platforms written down below; the
  functions of this file take any type of response.
\<close>

record Response =
  status :: nat
  body :: string

text \<open>The second argument of \<^verbatim>\<open>fetch\<close>, with the two keys a caller may set here.\<close>

record RequestInit =
  init_method :: "string option"
  init_headers :: "(string \<times> string) list"

record ('res, 'err, 'j, 'w) platform =
  platform_fetch :: "string option \<Rightarrow> RequestInit \<Rightarrow> 'w \<Rightarrow> ('err + 'res) \<times> 'w"
  platform_json :: "'res \<Rightarrow> 'w \<Rightarrow> ('err + 'j) \<times> 'w"

text \<open>
  The state that a call of a function of this file runs in: the world, and the calls of
  \<^verbatim>\<open>fetch\<close> that the program has made so far, each with its two arguments.
\<close>

record FetchCall =
  call_input :: "string option"
  call_init :: RequestInit

record 'w runtime =
  world :: 'w
  fetch_calls :: "FetchCall list"

text \<open>
  \<^verbatim>\<open>fetch(input, init)\<close> as the program calls it: the call is recorded, and the promise
  settles as the platform decides.
\<close>

definition fetch ::
  "('res, 'err, 'j, 'w) platform \<Rightarrow> string option \<Rightarrow> RequestInit \<Rightarrow> 'w runtime
     \<Rightarrow> ('err + 'res) \<times> 'w runtime" where
  "fetch P input init s =
     (case platform_fetch P input init (world s) of
        (r, w) \<Rightarrow>
          (r, \<lparr> world = w,
                fetch_calls = fetch_calls s @ [\<lparr> call_input = input, call_init = init \<rparr>] \<rparr>))"

text \<open>\<^verbatim>\<open>res.json()\<close>: the promise settles as the platform decides.\<close>

definition json ::
  "('res, 'err, 'j, 'w) platform \<Rightarrow> 'res \<Rightarrow> 'w runtime \<Rightarrow> ('err + 'j) \<times> 'w runtime" where
  "json P res s =
     (case platform_json P res (world s) of (r, w) \<Rightarrow> (r, s\<lparr> world := w \<rparr>))"

text \<open>A value of type \<^verbatim>\<open>string | undefined\<close> inside a template literal.\<close>

definition to_string :: "string option \<Rightarrow> string" where
  "to_string v = (case v of None \<Rightarrow> ''undefined'' | Some s \<Rightarrow> s)"

subsection \<open>The user-info request\<close>

text \<open>
  The argument of \<^verbatim>\<open>request\<close> is \<^verbatim>\<open>{ tokens, provider }\<close>. Of \<^verbatim>\<open>tokens\<close> the function
  reads \<^verbatim>\<open>access_token\<close>, of \<^verbatim>\<open>provider\<close> it reads \<^verbatim>\<open>userinfo?.url\<close>; both types are
  declared outside this file, so both are record schemes with the fields read. The URL
  is a \<^verbatim>\<open>URL\<close> object in the source and its text here.
\<close>

record TokenSet =
  access_token :: "string option"

record UserinfoHandler =
  handler_url :: "string option"

record Provider =
  userinfo :: "UserinfoHandler option"

text \<open>
  \<^verbatim>\<open>async request({ tokens, provider })\<close>, lines 85 to 89: one \<^verbatim>\<open>fetch\<close>, with the URL
  and an \<^verbatim>\<open>init\<close> that holds the \<^verbatim>\<open>Authorization\<close> header and no method; its response
  goes to \<^verbatim>\<open>res.json()\<close>; a rejection of either is the rejection of the whole. There is
  no \<^verbatim>\<open>catch\<close>, no loop, and \<^verbatim>\<open>res.status\<close> and \<^verbatim>\<open>res.ok\<close> are never read.
\<close>

definition request ::
  "('res, 'err, 'j, 'w) platform \<Rightarrow> 't TokenSet_scheme \<Rightarrow> 'p Provider_scheme \<Rightarrow> 'w runtime
     \<Rightarrow> ('err + 'j) \<times> 'w runtime" where
  "request P tokens provider s =
     (case fetch P
             (case userinfo provider of None \<Rightarrow> None | Some h \<Rightarrow> handler_url h)
             \<lparr> init_method = None,
               init_headers = [(''Authorization'', ''Bearer '' @ to_string (access_token tokens))] \<rparr>
             s of
        (Inl e, s') \<Rightarrow> (Inl e, s')
      | (Inr res, s') \<Rightarrow> json P res s')"

subsection \<open>The provider configuration\<close>

text \<open>
  The object literal \<^verbatim>\<open>{ bg: "#A6CE39", text: "#fff" }\<close> of the key \<^verbatim>\<open>style\<close>; its key
  \<^verbatim>\<open>text\<close> is the field \<open>text_colour\<close>, since \<open>text\<close> is a keyword of Isabelle.
\<close>

record Style =
  bg :: string
  text_colour :: string

text \<open>
  Modelled from the spec: the type \<^verbatim>\<open>OAuthUserConfig\<close> of the argument is declared in
  \<^verbatim>\<open>./index.js\<close>, outside the file embedded here. The spec describes it as
  the client identifier and the client secret together with optional overrides of the
  defaults (provider id and name, endpoint URLs, scopes, styling). Every field is
  optional, so that a record without a client identifier can be written down; further
  fields are the record scheme's extension. \<^verbatim>\<open>ORCID\<close> reads none of these fields.
\<close>

record EndpointOptions =
  option_url :: "string option"
  option_params :: "(string \<times> string) list option"

record OAuthUserConfig =
  clientId :: "string option"
  clientSecret :: "string option"
  option_id :: "string option"
  option_name :: "string option"
  option_authorization :: "EndpointOptions option"
  option_token :: "string option"
  option_userinfo :: "EndpointOptions option"
  option_style :: "Style option"

text \<open>
  The object that \<^verbatim>\<open>ORCID\<close> returns, key by key (\<^verbatim>\<open>id\<close>, \<^verbatim>\<open>name\<close>, \<^verbatim>\<open>type\<close>,
  \<^verbatim>\<open>authorization\<close>, \<^verbatim>\<open>token\<close>, \<^verbatim>\<open>userinfo\<close>, \<^verbatim>\<open>profile\<close>, \<^verbatim>\<open>style\<close>, \<^verbatim>\<open>options\<close>).
  An object literal with string values is an association list.
\<close>

record AuthorizationEndpoint =
  authorization_url :: string
  params :: "(string \<times> string) list"

record ('t, 'p, 'res, 'err, 'j, 'w) UserinfoEndpoint =
  userinfo_url :: string
  userinfo_request ::
    "('res, 'err, 'j, 'w) platform \<Rightarrow> 't TokenSet_scheme \<Rightarrow> 'p Provider_scheme \<Rightarrow> 'w runtime
       \<Rightarrow> ('err + 'j) \<times> 'w runtime"

record ('o, 'a, 't, 'p, 'res, 'err, 'j, 'w) OAuthConfig =
  config_id :: string
  config_name :: string
  config_type :: string
  config_authorization :: AuthorizationEndpoint
  config_token :: string
  config_userinfo :: "('t, 'p, 'res, 'err, 'j, 'w) UserinfoEndpoint"
  config_profile :: "'a ORCIDProfile_scheme \<Rightarrow> User"
  config_style :: Style
  config_options :: "'o OAuthUserConfig_scheme"

text \<open>
  \<^verbatim>\<open>ORCID(options)\<close>, lines 67 to 103: the object literal is returned as it stands.
  \<^verbatim>\<open>options\<close> is not read; it becomes the value of the key \<^verbatim>\<open>options\<close>.
\<close>

definition ORCID ::
  "'o OAuthUserConfig_scheme \<Rightarrow> ('o, 'a, 't, 'p, 'res, 'err, 'j, 'w) OAuthConfig" where
  "ORCID options =
     \<lparr> config_id = ''orcid'',
       config_name = ''ORCID'',
       config_type = ''oauth'',
       config_authorization =
         \<lparr> authorization_url = ''https://orcid.org/oauth/authorize'',
           params = [(''scope'', ''openid email profile''), (''response_type'', ''code'')] \<rparr>,
       config_token = ''https://orcid.org/oauth/token'',
       config_userinfo =
         \<lparr> userinfo_url = ''https://orcid.org/oauth/userinfo'',
           userinfo_request = request \<rparr>,
       config_profile = profile,
       config_style = \<lparr> bg = ''#A6CE39'', text_colour = ''#fff'' \<rparr>,
       config_options = options \<rparr>"


section \<open>Properties\<close>

subsection \<open>Auxiliary facts\<close>

lemma or_else_None [simp]: "or_else None b = b"
  by (simp add: or_else_def)

lemma or_else_empty [simp]: "or_else (Some []) b = b"
  by (simp add: or_else_def)

lemma or_else_Some [simp]: "s \<noteq> [] \<Longrightarrow> or_else (Some s) b = s"
  by (simp add: or_else_def)

lemma or_else_empty_default: "or_else (Some s) [] = s"
  by (cases s) simp_all

lemma trim_Unknown: "trim ''Unknown '' = ''Unknown''"
  by (simp add: trim_def is_white_space_def)

lemma trim_Grace_Hopper: "trim ''Grace Hopper'' = ''Grace Hopper''"
  by (simp add: trim_def is_white_space_def)

subsection \<open>The descriptor that \<^verbatim>\<open>ORCID\<close> returns\<close>

text \<open>
  C1. For every options record that holds a client id and a client secret, the descriptor
  \<^term>\<open>ORCID options\<close> has the id \<^verbatim>\<open>"orcid"\<close>, the name \<^verbatim>\<open>"ORCID"\<close> and the type
  \<^verbatim>\<open>"oauth"\<close>, and its authorization parameters hold the scope
  \<^verbatim>\<open>"openid email profile"\<close> and the response type \<^verbatim>\<open>"code"\<close>. The statement asks
  nothing of the overrides in \<^term>\<open>options\<close>: the fields of the returned object are the
  built-in ones whether or not the caller overrides them.
\<close>

theorem ORCID_defaults:
  assumes "clientId options = Some client_id" and "clientSecret options = Some client_secret"
  shows "config_id (ORCID options) = ''orcid''
     \<and> config_name (ORCID options) = ''ORCID''
     \<and> config_type (ORCID options) = ''oauth''
     \<and> map_of (params (config_authorization (ORCID options))) ''scope''
         = Some ''openid email profile''
     \<and> map_of (params (config_authorization (ORCID options))) ''response_type'' = Some ''code''"
  by (simp add: ORCID_def)

text \<open>The theorem at the options \<^verbatim>\<open>{ clientId: "APP-1", clientSecret: "s3cret" }\<close>.\<close>

theorem ORCID_defaults_witness:
  "clientId \<lparr> clientId = Some ''APP-1'', clientSecret = Some ''s3cret'', option_id = None,
       option_name = None, option_authorization = None, option_token = None,
       option_userinfo = None, option_style = None \<rparr> = Some ''APP-1''
   \<and> clientSecret \<lparr> clientId = Some ''APP-1'', clientSecret = Some ''s3cret'', option_id = None,
       option_name = None, option_authorization = None, option_token = None,
       option_userinfo = None, option_style = None \<rparr> = Some ''s3cret''
   \<and> config_id (ORCID \<lparr> clientId = Some ''APP-1'', clientSecret = Some ''s3cret'',
       option_id = None, option_name = None, option_authorization = None, option_token = None,
       option_userinfo = None, option_style = None \<rparr>
       :: (unit, unit, unit, unit, unit, unit, unit, unit) OAuthConfig) = ''orcid''
   \<and> map_of (params (config_authorization (ORCID \<lparr> clientId = Some ''APP-1'',
       clientSecret = Some ''s3cret'', option_id = None, option_name = None,
       option_authorization = None, option_token = None, option_userinfo = None,
       option_style = None \<rparr> :: (unit, unit, unit, unit, unit, unit, unit, unit) OAuthConfig))) ''scope''
       = Some ''openid email profile''"
proof -
  let ?options = "\<lparr> clientId = Some ''APP-1'', clientSecret = Some ''s3cret'', option_id = None,
       option_name = None, option_authorization = None, option_token = None,
       option_userinfo = None, option_style = None \<rparr>"
  have id: "clientId ?options = Some ''APP-1''"
    and secret: "clientSecret ?options = Some ''s3cret''"
    by simp_all
  show ?thesis
    by (simp add: ORCID_defaults [OF id secret])
qed

text \<open>
  C2, as the code has it. \<^verbatim>\<open>ORCID\<close> does not merge: for every options record the
  returned descriptor holds the caller's options, unchanged, under its key \<^verbatim>\<open>options\<close>,
  and its own id, name, authorization endpoint, token endpoint, user-info URL and style
  are the built-in defaults. A caller's value is found at \<^verbatim>\<open>options\<close>, beside the
  default and not in its place; laying the one over the other is left to the engine
  that consumes the descriptor.
\<close>

theorem ORCID_keeps_options:
  "config_options (ORCID options) = options
   \<and> config_id (ORCID options) = ''orcid''
   \<and> config_name (ORCID options) = ''ORCID''
   \<and> config_authorization (ORCID options)
       = \<lparr> authorization_url = ''https://orcid.org/oauth/authorize'',
           params = [(''scope'', ''openid email profile''), (''response_type'', ''code'')] \<rparr>
   \<and> config_token (ORCID options) = ''https://orcid.org/oauth/token''
   \<and> userinfo_url (config_userinfo (ORCID options)) = ''https://orcid.org/oauth/userinfo''
   \<and> config_style (ORCID options) = \<lparr> bg = ''#A6CE39'', text_colour = ''#fff'' \<rparr>"
  by (simp add: ORCID_def)

text \<open>
  With a custom \<^verbatim>\<open>authorization.url\<close> among the options, the authorization URL of the
  returned descriptor is not the caller's.
\<close>

theorem ORCID_override_counterexample:
  "authorization_url (config_authorization
      (ORCID \<lparr> clientId = Some ''APP-1'', clientSecret = Some ''s3cret'', option_id = None,
         option_name = None,
         option_authorization =
           Some \<lparr> option_url = Some ''https://sandbox.orcid.org/oauth/authorize'',
                  option_params = None \<rparr>,
         option_token = None, option_userinfo = None, option_style = None \<rparr>
       :: (unit, unit, unit, unit, unit, unit, unit, unit) OAuthConfig))
   \<noteq> ''https://sandbox.orcid.org/oauth/authorize''"
  by (simp add: ORCID_def)


subsection \<open>The profile mapping\<close>

text \<open>
  C3, as the code has it. The id of the result is the \<^verbatim>\<open>sub\<close> of the profile. A full
  name that is present and not the empty string is the name of the result, as it stands
  (it is not trimmed). The profile \<^verbatim>\<open>{ sub: "0000-0001", name: "Ada Lovelace" }\<close> is
  mapped to the id \<^verbatim>\<open>"0000-0001"\<close>, the name \<^verbatim>\<open>"Ada Lovelace"\<close> and the URL
  \<^verbatim>\<open>"https://orcid.org/0000-0001"\<close>, with neither email nor image.
\<close>

theorem profile_full_name:
  "user_id (profile p) = sub p
   \<and> (name p = Some n \<and> n \<noteq> [] \<longrightarrow> user_name (profile p) = n)
   \<and> profile \<lparr> sub = ''0000-0001'', name = Some ''Ada Lovelace'', email = None,
         given_name = None, family_name = None, picture = None, url = None \<rparr>
       = \<lparr> user_id = ''0000-0001'', user_name = ''Ada Lovelace'', user_email = None,
           user_image = None, user_url = ''https://orcid.org/0000-0001'' \<rparr>"
  by (simp add: profile_def)

text \<open>The implication of the theorem at Ada Lovelace's profile.\<close>

theorem profile_full_name_witness:
  "name \<lparr> sub = ''0000-0001'', name = Some ''Ada Lovelace'', email = None,
         given_name = None, family_name = None, picture = None, url = None \<rparr>
     = Some ''Ada Lovelace''
   \<and> ''Ada Lovelace'' \<noteq> []
   \<and> user_name (profile \<lparr> sub = ''0000-0001'', name = Some ''Ada Lovelace'', email = None,
         given_name = None, family_name = None, picture = None, url = None \<rparr>)
     = ''Ada Lovelace''"
  using profile_full_name [of "\<lparr> sub = ''0000-0001'', name = Some ''Ada Lovelace'',
         email = None, given_name = None, family_name = None, picture = None, url = None \<rparr>"
         "''Ada Lovelace''"]
  by simp

text \<open>
  A full name that is present and empty is not the name of the result: \<^verbatim>\<open>""\<close> is falsy,
  and \<^verbatim>\<open>||\<close> goes on to the fallback.
\<close>

theorem profile_full_name_counterexample:
  "user_name (profile \<lparr> sub = ''0000-0001'', name = Some '''', email = None,
       given_name = None, family_name = None, picture = None, url = None \<rparr>) \<noteq> ''''"
  by (simp add: profile_def trim_Unknown)

text \<open>
  C4, as the code has it. For every profile with no full name, a given name that is
  present and not the empty string, and a family name that is present, the name of the
  result is the given name, a space and the family name, trimmed.
\<close>

theorem profile_given_family:
  assumes "name p = None" and "given_name p = Some g" and "g \<noteq> []"
    and "family_name p = Some f"
  shows "user_name (profile p) = trim (g @ '' '' @ f)"
  using assms by (simp add: profile_def or_else_empty_default)

text \<open>The theorem at Grace Hopper's profile, whose name comes out as \<^verbatim>\<open>"Grace Hopper"\<close>.\<close>

theorem profile_given_family_witness:
  "name \<lparr> sub = ''0000-0002'', name = None, email = None, given_name = Some ''Grace'',
       family_name = Some ''Hopper'', picture = None, url = None \<rparr> = None
   \<and> given_name \<lparr> sub = ''0000-0002'', name = None, email = None, given_name = Some ''Grace'',
       family_name = Some ''Hopper'', picture = None, url = None \<rparr> = Some ''Grace''
   \<and> ''Grace'' \<noteq> []
   \<and> family_name \<lparr> sub = ''0000-0002'', name = None, email = None,
       given_name = Some ''Grace'', family_name = Some ''Hopper'', picture = None,
       url = None \<rparr> = Some ''Hopper''
   \<and> user_name (profile \<lparr> sub = ''0000-0002'', name = None, email = None,
       given_name = Some ''Grace'', family_name = Some ''Hopper'', picture = None,
       url = None \<rparr>) = ''Grace Hopper''"
  using profile_given_family [of "\<lparr> sub = ''0000-0002'', name = None, email = None,
       given_name = Some ''Grace'', family_name = Some ''Hopper'', picture = None, url = None \<rparr>"
       "''Grace''" "''Hopper''"]
  by (simp add: trim_Grace_Hopper)

text \<open>
  A given name that is present and empty is replaced by \<^verbatim>\<open>"Unknown"\<close>: the name is
  \<^verbatim>\<open>"Unknown Hopper"\<close>, not the trimmed concatenation \<^verbatim>\<open>"Hopper"\<close>.
\<close>

theorem profile_given_family_counterexample:
  "user_name (profile \<lparr> sub = ''0000-0002'', name = None, email = None,
       given_name = Some '''', family_name = Some ''Hopper'', picture = None, url = None \<rparr>)
     = ''Unknown Hopper''
   \<and> user_name (profile \<lparr> sub = ''0000-0002'', name = None, email = None,
       given_name = Some '''', family_name = Some ''Hopper'', picture = None, url = None \<rparr>)
     \<noteq> trim ('''' @ '' '' @ ''Hopper'')"
  by (simp add: profile_def trim_def is_white_space_def)

text \<open>
  C5. For every profile in which the full name, the given name and the family name are
  all absent, the name of the result is \<^verbatim>\<open>"Unknown"\<close>: the template literal gives
  \<^verbatim>\<open>"Unknown "\<close>, and the trailing space is trimmed away.
\<close>

theorem profile_unknown:
  assumes "name p = None" and "given_name p = None" and "family_name p = None"
  shows "user_name (profile p) = trim (''Unknown'' @ '' '' @ '''')
     \<and> user_name (profile p) = ''Unknown''"
  using assms by (simp add: profile_def trim_Unknown)

text \<open>The theorem at the profile \<^verbatim>\<open>{ sub: "0000-0003" }\<close>.\<close>

theorem profile_unknown_witness:
  "name \<lparr> sub = ''0000-0003'', name = None, email = None, given_name = None,
       family_name = None, picture = None, url = None \<rparr> = None
   \<and> given_name \<lparr> sub = ''0000-0003'', name = None, email = None, given_name = None,
       family_name = None, picture = None, url = None \<rparr> = None
   \<and> family_name \<lparr> sub = ''0000-0003'', name = None, email = None, given_name = None,
       family_name = None, picture = None, url = None \<rparr> = None
   \<and> user_name (profile \<lparr> sub = ''0000-0003'', name = None, email = None, given_name = None,
       family_name = None, picture = None, url = None \<rparr>) = ''Unknown''"
  using profile_unknown [of "\<lparr> sub = ''0000-0003'', name = None, email = None,
       given_name = None, family_name = None, picture = None, url = None \<rparr>"]
  by (simp add: trim_Unknown)

text \<open>
  C6, as the code has it. The URL of the result is the profile's own URL when that field
  is present and not the empty string, and \<^verbatim>\<open>"https://orcid.org/"\<close> followed by the
  \<^verbatim>\<open>sub\<close> when the field is absent.
\<close>

theorem profile_url:
  "(url p = Some u \<and> u \<noteq> [] \<longrightarrow> user_url (profile p) = u)
   \<and> (url p = None \<longrightarrow> user_url (profile p) = ''https://orcid.org/'' @ sub p)"
  by (simp add: profile_def)

text \<open>
  Both implications of the theorem: at the profile with the URL
  \<^verbatim>\<open>"https://example.org/x"\<close>, and at a profile without one.
\<close>

theorem profile_url_witness:
  "url \<lparr> sub = ''0000-0004'', name = None, email = None, given_name = None,
       family_name = None, picture = None, url = Some ''https://example.org/x'' \<rparr>
     = Some ''https://example.org/x''
   \<and> ''https://example.org/x'' \<noteq> []
   \<and> user_url (profile \<lparr> sub = ''0000-0004'', name = None, email = None, given_name = None,
       family_name = None, picture = None, url = Some ''https://example.org/x'' \<rparr>)
     = ''https://example.org/x''
   \<and> url \<lparr> sub = ''0000-0001'', name = None, email = None, given_name = None,
       family_name = None, picture = None, url = None \<rparr> = None
   \<and> user_url (profile \<lparr> sub = ''0000-0001'', name = None, email = None, given_name = None,
       family_name = None, picture = None, url = None \<rparr>) = ''https://orcid.org/0000-0001''"
  using profile_url [of "\<lparr> sub = ''0000-0004'', name = None, email = None, given_name = None,
       family_name = None, picture = None, url = Some ''https://example.org/x'' \<rparr>"
       "''https://example.org/x''"]
    profile_url [of "\<lparr> sub = ''0000-0001'', name = None, email = None, given_name = None,
       family_name = None, picture = None, url = None \<rparr>" "[]"]
  by simp

text \<open>A URL that is present and empty is not the URL of the result.\<close>

theorem profile_url_counterexample:
  "user_url (profile \<lparr> sub = ''0000-0004'', name = None, email = None, given_name = None,
       family_name = None, picture = None, url = Some '''' \<rparr>) \<noteq> ''''"
  by (simp add: profile_def)

text \<open>
  C9. For every profile whose full name is present and equal to the empty string, the
  result is the one of the same profile without a full name: the name is the fallback
  built from the given name and the family name.
\<close>

theorem profile_empty_full_name:
  assumes "name p = Some ''''"
  shows "profile p = profile (p\<lparr>name := None\<rparr>)
     \<and> user_name (profile p)
         = trim (or_else (given_name p) ''Unknown'' @ '' '' @ or_else (family_name p) '''')"
  using assms by (simp add: profile_def)

text \<open>The theorem at Grace Hopper's profile with the full name \<^verbatim>\<open>""\<close>.\<close>

theorem profile_empty_full_name_witness:
  "name \<lparr> sub = ''0000-0002'', name = Some '''', email = None, given_name = Some ''Grace'',
       family_name = Some ''Hopper'', picture = None, url = None \<rparr> = Some ''''
   \<and> profile \<lparr> sub = ''0000-0002'', name = Some '''', email = None, given_name = Some ''Grace'',
       family_name = Some ''Hopper'', picture = None, url = None \<rparr>
     = profile \<lparr> sub = ''0000-0002'', name = None, email = None, given_name = Some ''Grace'',
       family_name = Some ''Hopper'', picture = None, url = None \<rparr>
   \<and> user_name (profile \<lparr> sub = ''0000-0002'', name = Some '''', email = None,
       given_name = Some ''Grace'', family_name = Some ''Hopper'', picture = None, url = None \<rparr>)
     = ''Grace Hopper''"
  using profile_empty_full_name [of "\<lparr> sub = ''0000-0002'', name = Some '''', email = None,
       given_name = Some ''Grace'', family_name = Some ''Hopper'', picture = None, url = None \<rparr>"]
  by (simp add: profile_def trim_Grace_Hopper)

text \<open>
  C10. For every profile whose URL is present and equal to the empty string, the URL of
  the result is \<^verbatim>\<open>"https://orcid.org/"\<close> followed by the \<^verbatim>\<open>sub\<close>, as for a profile
  without the field, and not the empty string.
\<close>

theorem profile_empty_url:
  assumes "url p = Some ''''"
  shows "user_url (profile p) = ''https://orcid.org/'' @ sub p
     \<and> user_url (profile p) = user_url (profile (p\<lparr>url := None\<rparr>))
     \<and> user_url (profile p) \<noteq> ''''"
  using assms by (simp add: profile_def)

text \<open>The theorem at the profile \<^verbatim>\<open>{ sub: "0000-0004", url: "" }\<close>.\<close>

theorem profile_empty_url_witness:
  "url \<lparr> sub = ''0000-0004'', name = None, email = None, given_name = None,
       family_name = None, picture = None, url = Some '''' \<rparr> = Some ''''
   \<and> user_url (profile \<lparr> sub = ''0000-0004'', name = None, email = None, given_name = None,
       family_name = None, picture = None, url = Some '''' \<rparr>) = ''https://orcid.org/0000-0004''"
  using profile_empty_url [of "\<lparr> sub = ''0000-0004'', name = None, email = None,
       given_name = None, family_name = None, picture = None, url = Some '''' \<rparr>"]
  by simp

subsection \<open>The user-info request\<close>

text \<open>
  C7, as the code has it. For every tokens object with an access token, every provider
  configuration with a user-info URL and every platform, \<^term>\<open>request\<close> calls
  \<^verbatim>\<open>fetch\<close> exactly once, with that URL, the one header
  \<^verbatim>\<open>Authorization: Bearer <access_token>\<close> and no method, so that the method is the
  one \<^verbatim>\<open>fetch\<close> takes by default; there is no second call, whatever comes back. When
  \<^verbatim>\<open>fetch\<close> rejects, the rejection is the result, with its reason unchanged. When it
  is fulfilled with a response, \<^verbatim>\<open>json\<close> is called on that response, and what it
  settles to is the result: the parsed body, unmodified, or the rejection. Nothing of
  the response is read, its status included: a response outside 2xx is treated like
  any other.
\<close>

theorem request_once:
  assumes "access_token tokens = Some t"
    and "userinfo provider = Some h" and "handler_url h = Some u"
  shows "request P tokens provider s =
     (case platform_fetch P (Some u)
             \<lparr> init_method = None,
               init_headers = [(''Authorization'', ''Bearer '' @ t)] \<rparr> (world s) of
        (Inl e, w) \<Rightarrow>
          (Inl e,
           \<lparr> world = w,
             fetch_calls = fetch_calls s @
               [\<lparr> call_input = Some u,
                  call_init = \<lparr> init_method = None,
                                init_headers = [(''Authorization'', ''Bearer '' @ t)] \<rparr> \<rparr>] \<rparr>)
      | (Inr res, w) \<Rightarrow>
          (case platform_json P res w of
             (r, w') \<Rightarrow>
               (r,
                \<lparr> world = w',
                  fetch_calls = fetch_calls s @
                    [\<lparr> call_input = Some u,
                       call_init = \<lparr> init_method = None,
                                     init_headers = [(''Authorization'', ''Bearer '' @ t)] \<rparr> \<rparr>] \<rparr>)))
     \<and> length (fetch_calls (snd (request P tokens provider s))) = Suc (length (fetch_calls s))"
  using assms
  by (simp add: request_def fetch_def json_def to_string_def split: prod.splits sum.splits)

text \<open>
  The theorem at the default user-info URL and the access token \<^verbatim>\<open>"token"\<close>, on a
  platform whose \<^verbatim>\<open>fetch\<close> answers that URL with the status 200 and the body \<^verbatim>\<open>{}\<close>
  and rejects any other, whose \<^verbatim>\<open>json\<close> knows that body as the empty object, and
  whose world counts the calls that reach it.
\<close>

theorem request_once_witness:
  "access_token \<lparr> access_token = Some ''token'' \<rparr> = Some ''token''
   \<and> userinfo \<lparr> userinfo = Some \<lparr> handler_url = Some ''https://orcid.org/oauth/userinfo'' \<rparr> \<rparr>
       = Some \<lparr> handler_url = Some ''https://orcid.org/oauth/userinfo'' \<rparr>
   \<and> handler_url \<lparr> handler_url = Some ''https://orcid.org/oauth/userinfo'' \<rparr>
       = Some ''https://orcid.org/oauth/userinfo''
   \<and> request
        \<lparr> platform_fetch =
            (\<lambda>input init (w :: nat).
               (if input = Some ''https://orcid.org/oauth/userinfo''
                then Inr \<lparr> status = 200, body = ''{}'' \<rparr> else Inl ''TypeError'', Suc w)),
          platform_json =
            (\<lambda>res w. (if body res = ''{}'' then Inr ([] :: (string \<times> string) list)
                       else Inl ''SyntaxError'', w)) \<rparr>
        \<lparr> access_token = Some ''token'' \<rparr>
        \<lparr> userinfo = Some \<lparr> handler_url = Some ''https://orcid.org/oauth/userinfo'' \<rparr> \<rparr>
        \<lparr> world = 0, fetch_calls = [] \<rparr>
      = (Inr [],
         \<lparr> world = 1,
           fetch_calls =
             [\<lparr> call_input = Some ''https://orcid.org/oauth/userinfo'',
                call_init = \<lparr> init_method = None,
                              init_headers = [(''Authorization'', ''Bearer token'')] \<rparr> \<rparr>] \<rparr>)"
  using request_once [of "\<lparr> access_token = Some ''token'' \<rparr>" "''token''"
      "\<lparr> userinfo = Some \<lparr> handler_url = Some ''https://orcid.org/oauth/userinfo'' \<rparr> \<rparr>"
      "\<lparr> handler_url = Some ''https://orcid.org/oauth/userinfo'' \<rparr>"
      "''https://orcid.org/oauth/userinfo''"
      "\<lparr> platform_fetch =
          (\<lambda>input init (w :: nat).
             (if input = Some ''https://orcid.org/oauth/userinfo''
              then Inr \<lparr> status = 200, body = ''{}'' \<rparr> else Inl ''TypeError'', Suc w)),
        platform_json =
          (\<lambda>res w. (if body res = ''{}'' then Inr ([] :: (string \<times> string) list)
                     else Inl ''SyntaxError'', w)) \<rparr>"
      "\<lparr> world = 0, fetch_calls = [] \<rparr>"]
  by simp

text \<open>
  On a platform whose \<^verbatim>\<open>fetch\<close> is fulfilled with a response of the status 401 and the
  JSON body \<^verbatim>\<open>{}\<close>, the request is no rejection: it is fulfilled with the parsed body.
\<close>

theorem request_status_counterexample:
  "status \<lparr> status = 401, body = ''{}'' \<rparr> = 401
   \<and> fst (request
        \<lparr> platform_fetch =
            (\<lambda>input init (w :: unit). (Inr \<lparr> status = 401, body = ''{}'' \<rparr> :: string + Response, w)),
          platform_json =
            (\<lambda>res w. (if body res = ''{}'' then Inr ([] :: (string \<times> string) list)
                       else Inl ''SyntaxError'', w)) \<rparr>
        \<lparr> access_token = Some ''token'' \<rparr>
        \<lparr> userinfo = Some \<lparr> handler_url = Some ''https://orcid.org/oauth/userinfo'' \<rparr> \<rparr>
        \<lparr> world = (), fetch_calls = [] \<rparr>) = Inr []"
  by (simp add: request_def fetch_def json_def to_string_def)

end
